theory Spec2Isabelle
  imports Main
begin

section \<open>Python values\<close>

text \<open>
  A Python \<open>str\<close> is a sequence of Unicode code points, so it is modelled as a list of
  natural numbers; \<open>ustr\<close> turns an (ASCII) literal of the source into that list.
\<close>

type_synonym pystr = "nat list"

definition ustr :: "string \<Rightarrow> pystr" where
  "ustr cs = map of_char cs"

text \<open>
  The values a parsed JSON document consists of: \<open>None\<close>, \<open>bool\<close>, \<open>int\<close>, \<open>float\<close>
  (kept as an opaque mantissa and exponent, the program never computes with one),
  \<open>str\<close>, \<open>list\<close> and \<open>dict\<close> with string keys. A dict is an association list read
  by \<open>map_of\<close>.
\<close>

datatype pyval =
    PNone
  | PBool bool
  | PInt int
  | PFloat int int
  | PStr pystr
  | PList "pyval list"
  | PDict "(pystr \<times> pyval) list"

text \<open>The exceptions the program can meet; \<open>KeyError\<close> carries the missing key.\<close>

datatype py_error =
    KeyError pyval
  | IndexError
  | TypeError
  | AttributeError
  | ValueError pystr
  | ConnectionError
  | Timeout
  | HTTPError nat
  | JSONDecodeError

definition bind_err :: "py_error + 'a \<Rightarrow> ('a \<Rightarrow> py_error + 'b) \<Rightarrow> py_error + 'b" where
  "bind_err r f = (case r of Inl e \<Rightarrow> Inl e | Inr v \<Rightarrow> f v)"

text \<open>Truth value of an object, as \<open>if not x\<close> tests it.\<close>

fun truthy :: "pyval \<Rightarrow> bool" where
  "truthy PNone = False"
| "truthy (PBool b) = b"
| "truthy (PInt i) = (i \<noteq> 0)"
| "truthy (PFloat m e) = (m \<noteq> 0)"
| "truthy (PStr s) = (s \<noteq> [])"
| "truthy (PList xs) = (xs \<noteq> [])"
| "truthy (PDict d) = (d \<noteq> [])"

text \<open>Lists and dicts are unhashable: using one as a dict key raises \<open>TypeError\<close>.\<close>

fun hashable :: "pyval \<Rightarrow> bool" where
  "hashable (PList xs) = False"
| "hashable (PDict d) = False"
| "hashable v = True"

text \<open>\<open>d[k]\<close> on a dict whose keys are all strings.\<close>

definition dict_getitem :: "(pystr \<times> 'v) list \<Rightarrow> pyval \<Rightarrow> py_error + 'v" where
  "dict_getitem d k =
     (if \<not> hashable k then Inl TypeError
      else (case k of
              PStr s \<Rightarrow> (case map_of d s of Some v \<Rightarrow> Inr v | None \<Rightarrow> Inl (KeyError k))
            | _ \<Rightarrow> Inl (KeyError k)))"

text \<open>\<open>d.get(k)\<close> for a string literal \<open>k\<close>: \<open>None\<close> when the key is missing.\<close>

definition dict_get :: "(pystr \<times> pyval) list \<Rightarrow> pystr \<Rightarrow> pyval" where
  "dict_get d k = (case map_of d k of Some v \<Rightarrow> v | None \<Rightarrow> PNone)"

text \<open>\<open>xs[i]\<close> on a sequence: a negative index counts from the end.\<close>

definition seq_index :: "'a list \<Rightarrow> int \<Rightarrow> py_error + 'a" where
  "seq_index xs i =
     (if 0 \<le> i \<and> i < int (length xs) then Inr (xs ! nat i)
      else if i < 0 \<and> - int (length xs) \<le> i then Inr (xs ! nat (i + int (length xs)))
      else Inl IndexError)"

text \<open>\<open>v[k]\<close> on any value; \<open>bool\<close> is a subtype of \<open>int\<close> and indexes as 0 or 1.\<close>

fun getitem :: "pyval \<Rightarrow> pyval \<Rightarrow> py_error + pyval" where
  "getitem (PDict d) k = dict_getitem d k"
| "getitem (PList xs) (PInt i) = seq_index xs i"
| "getitem (PList xs) (PBool b) = seq_index xs (if b then 1 else 0)"
| "getitem (PList xs) k = Inl TypeError"
| "getitem (PStr s) (PInt i) = bind_err (seq_index s i) (\<lambda>c. Inr (PStr [c]))"
| "getitem (PStr s) (PBool b) =
     bind_err (seq_index s (if b then 1 else 0)) (\<lambda>c. Inr (PStr [c]))"
| "getitem (PStr s) k = Inl TypeError"
| "getitem v k = Inl TypeError"

text \<open>
  \<open>str.isspace\<close> of one code point, and \<open>str.strip()\<close>: drop the whitespace at both ends.
\<close>

definition py_isspace :: "nat \<Rightarrow> bool" where
  "py_isspace c =
     ((9 \<le> c \<and> c \<le> 13) \<or> (28 \<le> c \<and> c \<le> 32) \<or> c = 133 \<or> c = 160 \<or> c = 5760
      \<or> (8192 \<le> c \<and> c \<le> 8202) \<or> c = 8232 \<or> c = 8233 \<or> c = 8239 \<or> c = 8287
      \<or> c = 12288)"

definition strip :: "pystr \<Rightarrow> pystr" where
  "strip s = rev (dropWhile py_isspace (rev (dropWhile py_isspace s)))"

text \<open>\<open>v.strip()\<close> on any value: only a \<open>str\<close> has the method.\<close>

fun strip_method :: "pyval \<Rightarrow> py_error + pystr" where
  "strip_method (PStr s) = Inr (strip s)"
| "strip_method v = Inl AttributeError"

definition startswith :: "pystr \<Rightarrow> pystr \<Rightarrow> bool" where
  "startswith s p = (take (length p) s = p)"

section \<open>Start-up\<close>

text \<open>
  Lines 9 to 11: \<open>os.getenv\<close> gives \<open>None\<close> or the value; the module raises
  \<open>ValueError\<close> when it is \<open>None\<close> or empty, and nothing below runs.
\<close>

definition load_api_key :: "pystr option \<Rightarrow> py_error + pystr" where
  "load_api_key env =
     (case env of
        None \<Rightarrow> Inl (ValueError (ustr ''GEMINI_API_KEY environment variable not set.''))
      | Some k \<Rightarrow>
          if k = [] then Inl (ValueError (ustr ''GEMINI_API_KEY environment variable not set.''))
          else Inr k)"

section \<open>The decision tree\<close>

definition questions :: "(pystr \<times> (pystr \<times> pystr) list) list" where
  "questions =
    [(ustr ''start'',
        [(ustr ''question'', ustr ''Are they conscious and responsive?''),
         (ustr ''yes'', ustr ''q1_a''),
         (ustr ''no'', ustr ''q1_b'')]),
     (ustr ''q1_a'',
        [(ustr ''question'', ustr ''Are they breathing?''),
         (ustr ''yes'', ustr ''q2_a''),
         (ustr ''no'', ustr ''diag_unconscious_not_breathing'')]),
     (ustr ''q1_b'',
        [(ustr ''question'', ustr ''Do they have a pulse?''),
         (ustr ''yes'', ustr ''diag_unconscious_breathing''),
         (ustr ''no'', ustr ''diag_unconscious_no_pulse'')]),
     (ustr ''q2_a'',
        [(ustr ''question'', ustr ''Is there any severe bleeding?''),
         (ustr ''yes'', ustr ''diag_bleeding''),
         (ustr ''no'', ustr ''q3_a'')]),
     (ustr ''q3_a'',
        [(ustr ''question'',
            ustr ''Are they clutching their chest or experiencing severe chest pain?''),
         (ustr ''yes'', ustr ''diag_heart_attack''),
         (ustr ''no'', ustr ''q4_a'')]),
     (ustr ''q4_a'',
        [(ustr ''question'',
            ustr ''Are they exhibiting facial drooping, arm weakness, or slurred speech?''),
         (ustr ''yes'', ustr ''diag_stroke''),
         (ustr ''no'', ustr ''q5_a'')]),
     (ustr ''q5_a'',
        [(ustr ''question'',
            ustr ''Are they experiencing a sudden, uncontrollable shaking of their body?''),
         (ustr ''yes'', ustr ''diag_seizure''),
         (ustr ''no'', ustr ''q6_a'')]),
     (ustr ''q6_a'',
        [(ustr ''question'',
            ustr ''Do they have a known history of severe allergies or are they having trouble breathing with swelling?''),
         (ustr ''yes'', ustr ''diag_allergic_reaction''),
         (ustr ''no'', ustr ''diag_general_ok'')])]"

definition diagnoses :: "(pystr \<times> pystr) list" where
  "diagnoses =
    [(ustr ''diag_unconscious_not_breathing'',
        ustr ''Possible Cardiac Arrest. Start CPR immediately and call for an AED. You should have already called for emergency services.''),
     (ustr ''diag_unconscious_breathing'',
        ustr ''Possible Unconscious but Breathing. Place them in the recovery position and monitor their breathing. You should have already called for emergency services.''),
     (ustr ''diag_unconscious_no_pulse'',
        ustr ''Possible Cardiac Arrest. Start CPR immediately. You should have already called for emergency services.''),
     (ustr ''diag_bleeding'',
        ustr ''Possible Severe Bleeding. Apply direct pressure to the wound with a clean cloth. Elevate the injured area if possible. You should have already called for emergency services.''),
     (ustr ''diag_heart_attack'',
        ustr ''Possible Heart Attack. Keep the person calm and seated. Loosen any tight clothing. You should have already called for emergency services.''),
     (ustr ''diag_stroke'',
        ustr ''Possible Stroke. Remember the FAST acronym (Face, Arm, Speech, Time). Do not give them anything to eat or drink. You should have already called for emergency services.''),
     (ustr ''diag_seizure'',
        ustr ''Possible Seizure. Protect the person from injury by moving objects away. Do not restrain them. You should have already called for emergency services.''),
     (ustr ''diag_allergic_reaction'',
        ustr ''Possible Anaphylactic Shock. If they have an epinephrine auto-injector, assist them in using it. You should have already called for emergency services.''),
     (ustr ''diag_general_ok'',
        ustr ''The person may be fine or have a less critical condition. However, if symptoms persist or worsen, please seek professional medical help immediately.'')]"

section \<open>The symptom classifier\<close>

text \<open>
  What \<open>requests.post\<close> did: it raised, or it returned a response with a status code and
  a body; the body is \<open>None\<close> when \<open>response.json()\<close> cannot parse it.
\<close>

datatype http_outcome =
    PostRaises py_error
  | PostReturns nat "pyval option"

definition diagnosis_categories :: "(pystr \<times> pystr) list" where
  "diagnosis_categories =
    [(ustr ''Cardiac Arrest'', ustr ''diag_unconscious_not_breathing''),
     (ustr ''Breathing Emergency'', ustr ''diag_unconscious_breathing''),
     (ustr ''Severe Bleeding'', ustr ''diag_bleeding''),
     (ustr ''Heart Attack'', ustr ''diag_heart_attack''),
     (ustr ''Stroke'', ustr ''diag_stroke''),
     (ustr ''Seizure'', ustr ''diag_seizure''),
     (ustr ''Allergic Reaction'', ustr ''diag_allergic_reaction'')]"

text \<open>
  Lines 101 to 105: \<open>raise_for_status\<close> raises on a status from 400 to 599, then the
  body is parsed and the text is read at
  \<open>result['candidates'][0]['content']['parts'][0]['text']\<close> and stripped.
\<close>

definition fetch_ai_match :: "http_outcome \<Rightarrow> py_error + pystr" where
  "fetch_ai_match outcome =
     (case outcome of
        PostRaises e \<Rightarrow> Inl e
      | PostReturns status_code body \<Rightarrow>
          if 400 \<le> status_code \<and> status_code < 600 then Inl (HTTPError status_code)
          else (case body of
                  None \<Rightarrow> Inl JSONDecodeError
                | Some result \<Rightarrow>
                    bind_err (getitem result (PStr (ustr ''candidates''))) (\<lambda>candidates.
                    bind_err (getitem candidates (PInt 0)) (\<lambda>candidate.
                    bind_err (getitem candidate (PStr (ustr ''content''))) (\<lambda>content.
                    bind_err (getitem content (PStr (ustr ''parts''))) (\<lambda>parts.
                    bind_err (getitem parts (PInt 0)) (\<lambda>part.
                    bind_err (getitem part (PStr (ustr ''text''))) strip_method)))))))"

text \<open>Lines 107 to 124: the membership test and the \<open>if\<close>/\<open>elif\<close> chain.\<close>

definition entry_for :: "pystr \<Rightarrow> pystr" where
  "entry_for ai_match =
     (if ai_match \<in> set (map fst diagnosis_categories) then
        (if ai_match = ustr ''Cardiac Arrest'' then ustr ''q1_a''
         else if ai_match = ustr ''Breathing Emergency'' then ustr ''q1_b''
         else if ai_match = ustr ''Severe Bleeding'' then ustr ''q2_a''
         else if ai_match = ustr ''Heart Attack'' then ustr ''q3_a''
         else if ai_match = ustr ''Stroke'' then ustr ''q4_a''
         else if ai_match = ustr ''Seizure'' then ustr ''q5_a''
         else if ai_match = ustr ''Allergic Reaction'' then ustr ''q6_a''
         else ustr ''start'')
      else ustr ''start'')"

text \<open>
  The whole function. The symptoms only go into the prompt that is sent, so the result
  depends on them through the outcome of the call alone. \<open>except Exception\<close> turns every
  error of the \<open>try\<close> block into the fallback (after printing it).
\<close>

definition call_ai_for_symptom_check :: "pyval \<Rightarrow> http_outcome \<Rightarrow> py_error + pystr" where
  "call_ai_for_symptom_check symptoms outcome =
     (case bind_err (fetch_ai_match outcome) (\<lambda>ai_match. Inr (entry_for ai_match)) of
        Inl e \<Rightarrow> Inr (ustr ''start'')
      | Inr next_id \<Rightarrow> Inr next_id)"

section \<open>The endpoints\<close>

text \<open>
  Each endpoint takes \<open>request.json\<close>, the parsed body, and gives what it passes to
  \<open>jsonify\<close>, or the exception that leaves the handler.
\<close>

definition question_reply :: "pystr \<Rightarrow> pystr \<Rightarrow> pyval" where
  "question_reply next_q_id q =
     PDict [(ustr ''status'', PStr (ustr ''question'')),
            (ustr ''next_q_id'', PStr next_q_id),
            (ustr ''question'', PStr q)]"

definition diagnosis_reply :: "pystr \<Rightarrow> pyval" where
  "diagnosis_reply text =
     PDict [(ustr ''status'', PStr (ustr ''diagnosis'')),
            (ustr ''diagnosis'', PStr text)]"

definition symptom_check :: "pyval \<Rightarrow> http_outcome \<Rightarrow> py_error + pyval" where
  "symptom_check data outcome =
     (case data of
        PDict d \<Rightarrow>
          (let symptoms = dict_get d (ustr ''symptoms'') in
           if \<not> truthy symptoms then
             Inr (PDict [(ustr ''status'', PStr (ustr ''error'')),
                         (ustr ''message'', PStr (ustr ''No symptoms provided.''))])
           else
             bind_err (call_ai_for_symptom_check symptoms outcome) (\<lambda>next_question_id.
             bind_err (case map_of questions next_question_id of
                         Some node \<Rightarrow> Inr node
                       | None \<Rightarrow> dict_getitem questions (PStr (ustr ''start'')))
               (\<lambda>first_question.
             bind_err (dict_getitem first_question (PStr (ustr ''question''))) (\<lambda>q.
               Inr (question_reply next_question_id q)))))
      | _ \<Rightarrow> Inl AttributeError)"

text \<open>Lines 168 to 188 of \<open>answer\<close>, on the two fields read from the body.\<close>

definition advance :: "pyval \<Rightarrow> pyval \<Rightarrow> py_error + pyval" where
  "advance current_q_id ans =
     bind_err
       (if ans = PStr (ustr ''initial'') then Inr (ustr ''start'')
        else bind_err (dict_getitem questions current_q_id) (\<lambda>node. dict_getitem node ans))
       (\<lambda>next_q_id.
          if startswith next_q_id (ustr ''diag_'') then
            bind_err (dict_getitem diagnoses (PStr next_q_id)) (\<lambda>text.
              Inr (diagnosis_reply text))
          else
            bind_err (dict_getitem questions (PStr next_q_id)) (\<lambda>next_question.
            bind_err (dict_getitem next_question (PStr (ustr ''question''))) (\<lambda>q.
              Inr (question_reply next_q_id q))))"

definition answer :: "pyval \<Rightarrow> py_error + pyval" where
  "answer data =
     (case data of
        PDict d \<Rightarrow> advance (dict_get d (ustr ''current_q_id'')) (dict_get d (ustr ''answer''))
      | _ \<Rightarrow> Inl AttributeError)"

section \<open>Notions the properties are stated with\<close>

text \<open>
  The caller keeps the current node between calls: it sends back the \<open>next_q_id\<close> of
  the last reply with its next answer. \<open>advance_all\<close> is that dialogue, one reply for
  each call made; it stops at a reply without \<open>next_q_id\<close> and at an error.
\<close>

fun next_node :: "pyval \<Rightarrow> pyval option" where
  "next_node (PDict d) = map_of d (ustr ''next_q_id'')"
| "next_node v = None"

fun advance_all :: "pyval \<Rightarrow> pyval list \<Rightarrow> (py_error + pyval) list" where
  "advance_all current_q_id [] = []"
| "advance_all current_q_id (a # as) =
     (case advance current_q_id a of
        Inl e \<Rightarrow> [Inl e]
      | Inr reply \<Rightarrow>
          Inr reply # (case next_node reply of
                         None \<Rightarrow> []
                       | Some n \<Rightarrow> advance_all n as))"

text \<open>The ids of the two tables, and the yes/no transitions of the tree as a graph.\<close>

definition question_ids :: "pystr list" where
  "question_ids = map fst questions"

definition diagnosis_ids :: "pystr list" where
  "diagnosis_ids = map fst diagnoses"

definition transition_target :: "pystr \<Rightarrow> pystr \<Rightarrow> pystr option" where
  "transition_target n a =
     (case map_of questions n of None \<Rightarrow> None | Some node \<Rightarrow> map_of node a)"

definition transitions :: "(pystr \<times> pystr) list" where
  "transitions =
     [(n, t). (n, node) \<leftarrow> questions, a \<leftarrow> [ustr ''yes'', ustr ''no''],
              t \<leftarrow> (case map_of node a of Some t \<Rightarrow> [t] | None \<Rightarrow> [])]"

definition edges :: "(pystr \<times> pystr) set" where
  "edges = set transitions"

text \<open>Following a sequence of yes/no answers through the tables, from node \<open>n\<close>.\<close>

fun walk :: "pystr \<Rightarrow> pystr list \<Rightarrow> pystr option" where
  "walk n [] = Some n"
| "walk n (a # as) =
     (if a = ustr ''yes'' \<or> a = ustr ''no'' then
        (case transition_target n a of Some t \<Rightarrow> walk t as | None \<Rightarrow> None)
      else None)"

text \<open>
  The text of a response body of the shape line 105 reads,
  \<open>{"candidates": [{"content": {"parts": [{"text": <str>}, ...]}}, ...]}\<close>;
  \<open>None\<close> when a field on that path is missing or is of another type.
\<close>

fun field :: "pystr \<Rightarrow> pyval \<Rightarrow> pyval option" where
  "field k (PDict d) = map_of d k"
| "field k v = None"

fun first_item :: "pyval \<Rightarrow> pyval option" where
  "first_item (PList (x # xs)) = Some x"
| "first_item v = None"

fun str_value :: "pyval \<Rightarrow> pystr option" where
  "str_value (PStr s) = Some s"
| "str_value v = None"

definition body_text :: "pyval \<Rightarrow> pystr option" where
  "body_text result =
     Option.bind (field (ustr ''candidates'') result) (\<lambda>candidates.
     Option.bind (first_item candidates) (\<lambda>candidate.
     Option.bind (field (ustr ''content'') candidate) (\<lambda>content.
     Option.bind (field (ustr ''parts'') content) (\<lambda>parts.
     Option.bind (first_item parts) (\<lambda>part.
     Option.bind (field (ustr ''text'') part) str_value)))))"

text \<open>A body of that shape with the text \<open>t\<close>, and nothing else.\<close>

definition text_body :: "pystr \<Rightarrow> pyval" where
  "text_body t =
     PDict [(ustr ''candidates'',
       PList [PDict [(ustr ''content'',
         PDict [(ustr ''parts'', PList [PDict [(ustr ''text'', PStr t)]])])]])]"

text \<open>
  The entry mapping as one table of labels and entry nodes, the way the specification
  describes it; \<open>entry_for\<close> above is what the code does instead.
\<close>

definition entry_mapping :: "(pystr \<times> pystr) list" where
  "entry_mapping =
    [(ustr ''Cardiac Arrest'', ustr ''q1_a''),
     (ustr ''Breathing Emergency'', ustr ''q1_b''),
     (ustr ''Severe Bleeding'', ustr ''q2_a''),
     (ustr ''Heart Attack'', ustr ''q3_a''),
     (ustr ''Stroke'', ustr ''q4_a''),
     (ustr ''Seizure'', ustr ''q5_a''),
     (ustr ''Allergic Reaction'', ustr ''q6_a'')]"

section \<open>Evaluating the tables\<close>

lemma ustr_eq_iff [simp]: "ustr a = ustr b \<longleftrightarrow> a = b"
  unfolding ustr_def by (rule inj_map_eq_map) (rule inj_of_char)

lemma ustr_Nil_iff [simp]: "ustr a = [] \<longleftrightarrow> a = []"
  by (simp add: ustr_def)

lemma Nil_ustr_iff [simp]: "[] = ustr a \<longleftrightarrow> a = []"
  by (simp add: ustr_def)

lemma startswith_ustr [simp]: "startswith (ustr a) (ustr b) \<longleftrightarrow> take (length b) a = b"
  by (simp add: startswith_def ustr_def take_map inj_map_eq_map[OF inj_of_char])

lemmas tree_defs = advance_def bind_err_def dict_getitem_def questions_def diagnoses_def

lemma question_ids_eq:
  "question_ids = [ustr ''start'', ustr ''q1_a'', ustr ''q1_b'', ustr ''q2_a'', ustr ''q3_a'',
     ustr ''q4_a'', ustr ''q5_a'', ustr ''q6_a'']"
  by (simp add: question_ids_def questions_def)

lemma diagnosis_ids_eq:
  "diagnosis_ids = [ustr ''diag_unconscious_not_breathing'', ustr ''diag_unconscious_breathing'',
     ustr ''diag_unconscious_no_pulse'', ustr ''diag_bleeding'', ustr ''diag_heart_attack'',
     ustr ''diag_stroke'', ustr ''diag_seizure'', ustr ''diag_allergic_reaction'',
     ustr ''diag_general_ok'']"
  by (simp add: diagnosis_ids_def diagnoses_def)

lemma transitions_eq:
  "transitions =
    [(ustr ''start'', ustr ''q1_a''), (ustr ''start'', ustr ''q1_b''),
     (ustr ''q1_a'', ustr ''q2_a''), (ustr ''q1_a'', ustr ''diag_unconscious_not_breathing''),
     (ustr ''q1_b'', ustr ''diag_unconscious_breathing''),
     (ustr ''q1_b'', ustr ''diag_unconscious_no_pulse''),
     (ustr ''q2_a'', ustr ''diag_bleeding''), (ustr ''q2_a'', ustr ''q3_a''),
     (ustr ''q3_a'', ustr ''diag_heart_attack''), (ustr ''q3_a'', ustr ''q4_a''),
     (ustr ''q4_a'', ustr ''diag_stroke''), (ustr ''q4_a'', ustr ''q5_a''),
     (ustr ''q5_a'', ustr ''diag_seizure''), (ustr ''q5_a'', ustr ''q6_a''),
     (ustr ''q6_a'', ustr ''diag_allergic_reaction''), (ustr ''q6_a'', ustr ''diag_general_ok'')]"
  by (simp add: transitions_def questions_def)

section \<open>Start-up: the credential\<close>

text \<open>
  C8. When \<open>GEMINI_API_KEY\<close> is absent or empty the module raises \<open>ValueError\<close> while it
  loads, so the service does not start; no default key takes its place. With any
  non-empty value the module goes on with that key.
\<close>

theorem missing_key_is_fatal:
  "(env = None \<or> env = Some [] \<longrightarrow>
      load_api_key env =
        Inl (ValueError (ustr ''GEMINI_API_KEY environment variable not set.'')))
   \<and> (\<forall>k. env = Some k \<and> k \<noteq> [] \<longrightarrow> load_api_key env = Inr k)"
  by (auto simp: load_api_key_def)

theorem missing_key_is_fatal_witness:
  "load_api_key None = Inl (ValueError (ustr ''GEMINI_API_KEY environment variable not set.''))
   \<and> load_api_key (Some []) =
       Inl (ValueError (ustr ''GEMINI_API_KEY environment variable not set.''))
   \<and> load_api_key (Some (ustr ''k3y'')) = Inr (ustr ''k3y'')"
  using missing_key_is_fatal [of None] missing_key_is_fatal [of "Some []"]
    missing_key_is_fatal [of "Some (ustr ''k3y'')"]
  by simp

section \<open>Properties of the tree\<close>

lemma set_transitions:
  "set transitions =
     (\<Union>p \<in> set questions. \<Union>a \<in> set [ustr ''yes'', ustr ''no''].
        Pair (fst p) ` set (case map_of (snd p) a of None \<Rightarrow> [] | Some t \<Rightarrow> [t]))"
  apply (simp only: transitions_def)
  apply (simp only: set_concat)
  apply (simp only: set_map)
  apply (simp only: image_image)
  apply (simp only: split_def)
  apply (simp only: set_concat)
  apply (simp only: set_map)
  apply (simp only: image_image)
  apply (simp only: set_map)
  done

lemma in_transitions:
  assumes "(n, node) \<in> set questions" and "map_of node a = Some t"
    and "a = ustr ''yes'' \<or> a = ustr ''no''"
  shows "(n, t) \<in> set transitions"
proof -
  from assms(2,3) have "(n, t) \<in> (\<Union>a \<in> set [ustr ''yes'', ustr ''no''].
      Pair (fst (n, node)) ` set (case map_of (snd (n, node)) a of None \<Rightarrow> [] | Some t \<Rightarrow> [t]))"
    by (elim disjE) simp_all
  with assms(1) show ?thesis
    unfolding set_transitions by (rule UN_I [where a = "(n, node)"])
qed


lemma transition_in_edges:
  assumes "transition_target n a = Some t" and "a = ustr ''yes'' \<or> a = ustr ''no''"
  shows "(n, t) \<in> edges"
proof (cases "map_of questions n")
  case None
  with assms(1) show ?thesis by (simp add: transition_target_def)
next
  case (Some node)
  then have "(n, node) \<in> set questions"
    by (rule map_of_SomeD)
  moreover from Some assms(1) have "map_of node a = Some t"
    by (simp add: transition_target_def)
  ultimately show ?thesis
    unfolding edges_def using assms(2) by (rule in_transitions)
qed

lemma walk_in_rtrancl: "walk n as = Some t \<Longrightarrow> (n, t) \<in> edges\<^sup>*"
proof (induction as arbitrary: n)
  case Nil
  then show ?case by simp
next
  case (Cons a as)
  from Cons.prems have a: "a = ustr ''yes'' \<or> a = ustr ''no''"
    by (simp split: if_splits)
  with Cons.prems obtain m where m: "transition_target n a = Some m" and rest: "walk m as = Some t"
    by (cases "transition_target n a") auto
  from m a have "(n, m) \<in> edges" by (rule transition_in_edges)
  moreover from rest have "(m, t) \<in> edges\<^sup>*" by (rule Cons.IH)
  ultimately show ?case by (rule converse_rtrancl_into_rtrancl)
qed


lemma walk_reaches:
  "walk (ustr ''start'') [] = Some (ustr ''start'')"
  "walk (ustr ''start'') [ustr ''yes''] = Some (ustr ''q1_a'')"
  "walk (ustr ''start'') [ustr ''no''] = Some (ustr ''q1_b'')"
  "walk (ustr ''start'') [ustr ''yes'', ustr ''yes''] = Some (ustr ''q2_a'')"
  "walk (ustr ''start'') [ustr ''yes'', ustr ''yes'', ustr ''no''] = Some (ustr ''q3_a'')"
  "walk (ustr ''start'') [ustr ''yes'', ustr ''yes'', ustr ''no'', ustr ''no''] =
     Some (ustr ''q4_a'')"
  "walk (ustr ''start'') [ustr ''yes'', ustr ''yes'', ustr ''no'', ustr ''no'', ustr ''no''] =
     Some (ustr ''q5_a'')"
  "walk (ustr ''start'')
     [ustr ''yes'', ustr ''yes'', ustr ''no'', ustr ''no'', ustr ''no'', ustr ''no''] =
     Some (ustr ''q6_a'')"
  "walk (ustr ''start'') [ustr ''yes'', ustr ''no''] = Some (ustr ''diag_unconscious_not_breathing'')"
  "walk (ustr ''start'') [ustr ''no'', ustr ''yes''] = Some (ustr ''diag_unconscious_breathing'')"
  "walk (ustr ''start'') [ustr ''no'', ustr ''no''] = Some (ustr ''diag_unconscious_no_pulse'')"
  "walk (ustr ''start'') [ustr ''yes'', ustr ''yes'', ustr ''yes''] = Some (ustr ''diag_bleeding'')"
  "walk (ustr ''start'') [ustr ''yes'', ustr ''yes'', ustr ''no'', ustr ''yes''] =
     Some (ustr ''diag_heart_attack'')"
  "walk (ustr ''start'') [ustr ''yes'', ustr ''yes'', ustr ''no'', ustr ''no'', ustr ''yes''] =
     Some (ustr ''diag_stroke'')"
  "walk (ustr ''start'')
     [ustr ''yes'', ustr ''yes'', ustr ''no'', ustr ''no'', ustr ''no'', ustr ''yes''] =
     Some (ustr ''diag_seizure'')"
  "walk (ustr ''start'')
     [ustr ''yes'', ustr ''yes'', ustr ''no'', ustr ''no'', ustr ''no'', ustr ''no'', ustr ''yes''] =
     Some (ustr ''diag_allergic_reaction'')"
  "walk (ustr ''start'')
     [ustr ''yes'', ustr ''yes'', ustr ''no'', ustr ''no'', ustr ''no'', ustr ''no'', ustr ''no''] =
     Some (ustr ''diag_general_ok'')"
  by (simp_all add: transition_target_def questions_def)

lemma every_id_walked:
  "\<forall>x \<in> set question_ids \<union> set diagnosis_ids. \<exists>as. walk (ustr ''start'') as = Some x"
  unfolding question_ids_eq diagnosis_ids_eq
  by (simp del: walk.simps) (intro conjI exI; rule walk_reaches)

lemma edges_acyclic: "acyclic edges"
proof -
  define height :: "pystr \<Rightarrow> nat" where
    "height = (\<lambda>x. if x = ustr ''start'' then 7 else if x = ustr ''q1_a'' then 6
       else if x = ustr ''q1_b'' then 6 else if x = ustr ''q2_a'' then 5
       else if x = ustr ''q3_a'' then 4 else if x = ustr ''q4_a'' then 3
       else if x = ustr ''q5_a'' then 2 else if x = ustr ''q6_a'' then 1 else 0)"
  have "\<forall>(a, b) \<in> set transitions. height b < height a"
    unfolding transitions_eq height_def by simp
  then have "height b < height a" if "(a, b) \<in> edges" for a b
    using that unfolding edges_def by blast
  then show ?thesis by (rule acyclicI_order)
qed

text \<open>
  C5. The tree is closed: for every question id \<open>n\<close> of \<open>questions\<close> and each answer
  \<open>yes\<close> or \<open>no\<close>, \<open>questions[n][a]\<close> is a key of \<open>questions\<close> or of \<open>diagnoses\<close>.
  The graph of the yes/no transitions is acyclic, and every question id and every
  diagnosis id is reachable from \<open>'start'\<close>.
\<close>

theorem tree_closed_acyclic_connected:
  "(\<forall>n \<in> set question_ids. \<forall>a \<in> {ustr ''yes'', ustr ''no''}.
      \<exists>t. transition_target n a = Some t \<and> t \<in> set question_ids \<union> set diagnosis_ids)
   \<and> acyclic edges
   \<and> (\<forall>x \<in> set question_ids \<union> set diagnosis_ids. (ustr ''start'', x) \<in> edges\<^sup>*)"
proof (intro conjI)
  show "\<forall>n \<in> set question_ids. \<forall>a \<in> {ustr ''yes'', ustr ''no''}.
      \<exists>t. transition_target n a = Some t \<and> t \<in> set question_ids \<union> set diagnosis_ids"
    by (simp add: question_ids_eq diagnosis_ids_eq transition_target_def questions_def)
  show "acyclic edges" by (rule edges_acyclic)
  show "\<forall>x \<in> set question_ids \<union> set diagnosis_ids. (ustr ''start'', x) \<in> edges\<^sup>*"
    using every_id_walked walk_in_rtrancl by blast
qed

theorem tree_closed_acyclic_connected_witness:
  "ustr ''q3_a'' \<in> set question_ids \<and> ustr ''no'' \<in> {ustr ''yes'', ustr ''no''}
   \<and> transition_target (ustr ''q3_a'') (ustr ''no'') = Some (ustr ''q4_a'')
   \<and> ustr ''q4_a'' \<in> set question_ids \<union> set diagnosis_ids
   \<and> (ustr ''start'', ustr ''q4_a'') \<in> edges\<^sup>*
   \<and> (ustr ''start'', ustr ''diag_general_ok'') \<in> edges\<^sup>*
   \<and> (ustr ''q4_a'', ustr ''q4_a'') \<notin> edges\<^sup>+"
proof -
  have 1: "ustr ''q3_a'' \<in> set question_ids" "ustr ''q4_a'' \<in> set question_ids \<union> set diagnosis_ids"
    "ustr ''diag_general_ok'' \<in> set question_ids \<union> set diagnosis_ids"
    by (simp_all add: question_ids_eq diagnosis_ids_eq)
  have 2: "transition_target (ustr ''q3_a'') (ustr ''no'') = Some (ustr ''q4_a'')"
    by (simp add: transition_target_def questions_def)
  from tree_closed_acyclic_connected 1 2 show ?thesis
    by (auto simp: acyclic_def)
qed

text \<open>
  C7. \<open>diagnoses\<close> has nine keys, each starting with \<open>diag_\<close>; the text stored under
  each of them is non-empty, and each is reached from \<open>'start'\<close> by some sequence of
  yes/no transitions.
\<close>

theorem every_leaf_has_text_and_is_reached:
  "length diagnoses = 9 \<and> distinct diagnosis_ids
   \<and> (\<forall>k \<in> set diagnosis_ids.
        startswith k (ustr ''diag_'')
        \<and> (\<exists>text. map_of diagnoses k = Some text \<and> text \<noteq> [])
        \<and> (\<exists>as. walk (ustr ''start'') as = Some k))"
proof (intro conjI ballI)
  show "length diagnoses = 9" by (simp add: diagnoses_def)
  show "distinct diagnosis_ids" by (simp add: diagnosis_ids_eq)
next
  fix k assume k: "k \<in> set diagnosis_ids"
  then show "startswith k (ustr ''diag_'')"
    by (auto simp: diagnosis_ids_eq)
  from k show "\<exists>text. map_of diagnoses k = Some text \<and> text \<noteq> []"
    unfolding diagnosis_ids_eq by (auto simp: diagnoses_def)
  from k every_id_walked show "\<exists>as. walk (ustr ''start'') as = Some k"
    by blast
qed

theorem every_leaf_has_text_and_is_reached_witness:
  "ustr ''diag_seizure'' \<in> set diagnosis_ids
   \<and> startswith (ustr ''diag_seizure'') (ustr ''diag_'')
   \<and> (\<exists>text. map_of diagnoses (ustr ''diag_seizure'') = Some text \<and> text \<noteq> [])
   \<and> (\<exists>as. walk (ustr ''start'') as = Some (ustr ''diag_seizure''))"
proof -
  have "ustr ''diag_seizure'' \<in> set diagnosis_ids"
    by (simp add: diagnosis_ids_eq)
  with every_leaf_has_text_and_is_reached show ?thesis
    by blast
qed

section \<open>Properties of the answer endpoint\<close>

lemma advance_initial:
  "advance current_q_id (PStr (ustr ''initial'')) =
     Inr (question_reply (ustr ''start'') (ustr ''Are they conscious and responsive?''))"
  by (simp add: tree_defs)

lemma advance_unknown_node:
  assumes "ans \<noteq> PStr (ustr ''initial'')"
    and "\<forall>k \<in> set question_ids. current_q_id \<noteq> PStr k"
  shows "advance current_q_id ans =
           Inl (if hashable current_q_id then KeyError current_q_id else TypeError)"
proof (cases current_q_id)
  case (PStr s)
  with assms(2) have "s \<notin> set (map fst questions)"
    by (auto simp: question_ids_def)
  then have "map_of questions s = None"
    by (simp add: map_of_eq_None_iff)
  with PStr assms(1) show ?thesis
    by (simp add: advance_def bind_err_def dict_getitem_def)
qed (use assms(1) in \<open>simp_all add: advance_def bind_err_def dict_getitem_def\<close>)

lemma question_node:
  assumes "k \<in> set question_ids"
  shows "\<exists>q y n. map_of questions k =
            Some [(ustr ''question'', q), (ustr ''yes'', y), (ustr ''no'', n)]
          \<and> \<not> startswith q (ustr ''diag_'') \<and> map_of questions q = None"
  using assms unfolding question_ids_eq by (auto simp: questions_def)

lemma bad_answer_lookup:
  assumes "ans \<noteq> PStr (ustr ''yes'')" and "ans \<noteq> PStr (ustr ''no'')"
  shows "dict_getitem [(ustr ''question'', q), (ustr ''yes'', y), (ustr ''no'', n)] ans =
           (if \<not> hashable ans then Inl TypeError
            else if ans = PStr (ustr ''question'') then Inr q
            else Inl (KeyError ans))"
  using assms by (cases ans) (auto simp: dict_getitem_def)

lemma advance_bad_answer:
  assumes k: "k \<in> set question_ids"
    and ans: "ans \<noteq> PStr (ustr ''initial'')" "ans \<noteq> PStr (ustr ''yes'')" "ans \<noteq> PStr (ustr ''no'')"
  shows "\<exists>e. advance (PStr k) ans = Inl e
           \<and> (if hashable ans then \<exists>key. e = KeyError key else e = TypeError)"
proof -
  from question_node [OF k] obtain q y n where
    node: "map_of questions k = Some [(ustr ''question'', q), (ustr ''yes'', y), (ustr ''no'', n)]"
    and q: "\<not> startswith q (ustr ''diag_'')" "map_of questions q = None"
    by blast
  have first: "dict_getitem questions (PStr k) =
      Inr [(ustr ''question'', q), (ustr ''yes'', y), (ustr ''no'', n)]"
    by (simp add: dict_getitem_def node)
  have last: "dict_getitem questions (PStr q) = Inl (KeyError (PStr q))"
    by (simp add: dict_getitem_def q(2))
  show ?thesis
    unfolding advance_def
    by (simp add: ans first bad_answer_lookup [OF ans(2,3)] bind_err_def q(1) last)
qed

lemma transition_targets_exist:
  "\<forall>(n, t) \<in> set transitions.
     (startswith t (ustr ''diag_'') \<and> (\<exists>text. map_of diagnoses t = Some text))
     \<or> (\<not> startswith t (ustr ''diag_'')
          \<and> (\<exists>node q. map_of questions t = Some node \<and> map_of node (ustr ''question'') = Some q))"
  unfolding transitions_eq by (simp add: questions_def diagnoses_def)

lemma advance_good_answer:
  assumes k: "k \<in> set question_ids" and a: "a = ustr ''yes'' \<or> a = ustr ''no''"
  shows "\<exists>t. transition_target k a = Some t
     \<and> ((\<exists>text. map_of diagnoses t = Some text
            \<and> advance (PStr k) (PStr a) = Inr (diagnosis_reply text))
        \<or> (\<exists>node q. map_of questions t = Some node \<and> map_of node (ustr ''question'') = Some q
            \<and> advance (PStr k) (PStr a) = Inr (question_reply t q)))"
proof -
  from k have "k \<in> fst ` set questions"
    by (simp add: question_ids_def)
  then obtain node where node: "map_of questions k = Some node"
    by (cases "map_of questions k") (auto simp: map_of_eq_None_iff)
  then have mem: "(k, node) \<in> set questions"
    by (rule map_of_SomeD)
  have "\<exists>q y n. node = [(ustr ''question'', q), (ustr ''yes'', y), (ustr ''no'', n)]"
    using mem by (auto simp: questions_def)
  with a obtain t where t: "map_of node a = Some t"
    by auto
  from mem t a have "(k, t) \<in> set transitions"
    by (rule in_transitions)
  with transition_targets_exist
  have kind: "(startswith t (ustr ''diag_'') \<and> (\<exists>text. map_of diagnoses t = Some text))
     \<or> (\<not> startswith t (ustr ''diag_'')
          \<and> (\<exists>node q. map_of questions t = Some node \<and> map_of node (ustr ''question'') = Some q))"
    by blast
  from a have ni: "a \<noteq> ustr ''initial''"
    by auto
  have tt: "transition_target k a = Some t"
    by (simp add: transition_target_def node t)
  from kind show ?thesis
  proof (elim disjE conjE exE)
    fix leaf_text
    assume "startswith t (ustr ''diag_'')" and d: "map_of diagnoses t = Some leaf_text"
    then have "advance (PStr k) (PStr a) = Inr (diagnosis_reply leaf_text)"
      by (simp add: advance_def bind_err_def dict_getitem_def node t ni)
    with tt d show ?thesis
      by blast
  next
    fix node' q
    assume "\<not> startswith t (ustr ''diag_'')" and n': "map_of questions t = Some node'"
      and q: "map_of node' (ustr ''question'') = Some q"
    then have "advance (PStr k) (PStr a) = Inr (question_reply t q)"
      by (simp add: advance_def bind_err_def dict_getitem_def node t ni)
    with tt n' q show ?thesis
      by blast
  qed
qed

text \<open>
  C3, as the code has it. For every current node and answer: the answer \<open>"initial"\<close>
  is accepted, it gives the root question whatever the node is. A question id with the
  answer \<open>yes\<close> or \<open>no\<close> succeeds, with the question or the diagnosis of the target.
  Any other pair fails, and with Python's own exceptions, the code has no error types
  of its own: a node that is no question id raises \<open>KeyError\<close> for the node
  (\<open>TypeError\<close> when it is a list or dict), and a question id with an answer other than
  \<open>yes\<close>, \<open>no\<close> and \<open>initial\<close> raises \<open>KeyError\<close> (\<open>TypeError\<close> when the answer is
  a list or dict).
\<close>

theorem transition_outcomes:
  "(ans = PStr (ustr ''initial'') \<longrightarrow>
      advance current_q_id ans =
        Inr (question_reply (ustr ''start'') (ustr ''Are they conscious and responsive?'')))
   \<and> (\<forall>k \<in> set question_ids. \<forall>a \<in> {ustr ''yes'', ustr ''no''}.
        \<exists>t. transition_target k a = Some t
          \<and> ((\<exists>text. map_of diagnoses t = Some text
                 \<and> advance (PStr k) (PStr a) = Inr (diagnosis_reply text))
             \<or> (\<exists>node q. map_of questions t = Some node
                 \<and> map_of node (ustr ''question'') = Some q
                 \<and> advance (PStr k) (PStr a) = Inr (question_reply t q))))
   \<and> (ans \<noteq> PStr (ustr ''initial'') \<and> (\<forall>k \<in> set question_ids. current_q_id \<noteq> PStr k) \<longrightarrow>
        advance current_q_id ans =
          Inl (if hashable current_q_id then KeyError current_q_id else TypeError))
   \<and> (\<forall>k \<in> set question_ids.
        ans \<noteq> PStr (ustr ''initial'') \<and> ans \<noteq> PStr (ustr ''yes'') \<and> ans \<noteq> PStr (ustr ''no'') \<longrightarrow>
        (\<exists>e. advance (PStr k) ans = Inl e
           \<and> (if hashable ans then \<exists>key. e = KeyError key else e = TypeError)))"
proof (intro conjI ballI impI)
  assume "ans = PStr (ustr ''initial'')"
  then show "advance current_q_id ans =
      Inr (question_reply (ustr ''start'') (ustr ''Are they conscious and responsive?''))"
    by (simp add: advance_initial)
next
  fix k a
  assume "k \<in> set question_ids" and "a \<in> {ustr ''yes'', ustr ''no''}"
  then show "\<exists>t. transition_target k a = Some t
          \<and> ((\<exists>text. map_of diagnoses t = Some text
                 \<and> advance (PStr k) (PStr a) = Inr (diagnosis_reply text))
             \<or> (\<exists>node q. map_of questions t = Some node
                 \<and> map_of node (ustr ''question'') = Some q
                 \<and> advance (PStr k) (PStr a) = Inr (question_reply t q)))"
    by (intro advance_good_answer) simp_all
next
  assume "ans \<noteq> PStr (ustr ''initial'') \<and> (\<forall>k \<in> set question_ids. current_q_id \<noteq> PStr k)"
  then show "advance current_q_id ans =
      Inl (if hashable current_q_id then KeyError current_q_id else TypeError)"
    by (intro advance_unknown_node) simp_all
next
  fix k
  assume "k \<in> set question_ids"
    and "ans \<noteq> PStr (ustr ''initial'') \<and> ans \<noteq> PStr (ustr ''yes'') \<and> ans \<noteq> PStr (ustr ''no'')"
  then show "\<exists>e. advance (PStr k) ans = Inl e
           \<and> (if hashable ans then \<exists>key. e = KeyError key else e = TypeError)"
    by (intro advance_bad_answer) simp_all
qed

theorem transition_outcomes_witness:
  "advance (PStr (ustr ''q2_a'')) (PStr (ustr ''initial'')) =
     Inr (question_reply (ustr ''start'') (ustr ''Are they conscious and responsive?''))
   \<and> (\<exists>t. transition_target (ustr ''q3_a'') (ustr ''yes'') = Some t
        \<and> ((\<exists>text. map_of diagnoses t = Some text
               \<and> advance (PStr (ustr ''q3_a'')) (PStr (ustr ''yes'')) = Inr (diagnosis_reply text))
           \<or> (\<exists>node q. map_of questions t = Some node
               \<and> map_of node (ustr ''question'') = Some q
               \<and> advance (PStr (ustr ''q3_a'')) (PStr (ustr ''yes'')) = Inr (question_reply t q))))
   \<and> advance (PStr (ustr ''q9_z'')) (PStr (ustr ''yes'')) = Inl (KeyError (PStr (ustr ''q9_z'')))
   \<and> advance (PList []) (PStr (ustr ''yes'')) = Inl TypeError
   \<and> (\<exists>key. advance (PStr (ustr ''start'')) (PStr (ustr ''maybe'')) = Inl (KeyError key))
   \<and> (\<exists>key. advance (PStr (ustr ''start'')) PNone = Inl (KeyError key))
   \<and> advance (PStr (ustr ''start'')) (PList [PStr (ustr ''yes'')]) = Inl TypeError"
proof -
  have k: "ustr ''q3_a'' \<in> set question_ids" "ustr ''start'' \<in> set question_ids"
    by (simp_all add: question_ids_eq)
  have u: "\<forall>k \<in> set question_ids. PStr (ustr ''q9_z'') \<noteq> PStr k"
    "\<forall>k \<in> set question_ids. PList [] \<noteq> PStr k"
    by (simp_all add: question_ids_eq)
  have a: "PStr (ustr ''yes'') \<noteq> PStr (ustr ''initial'')"
    "PStr (ustr ''maybe'') \<noteq> PStr (ustr ''initial'') \<and> PStr (ustr ''maybe'') \<noteq> PStr (ustr ''yes'')
      \<and> PStr (ustr ''maybe'') \<noteq> PStr (ustr ''no'')"
    by simp_all
  note t = transition_outcomes
  from t [of "PStr (ustr ''initial'')" "PStr (ustr ''q2_a'')"]
  have 1: "advance (PStr (ustr ''q2_a'')) (PStr (ustr ''initial'')) =
     Inr (question_reply (ustr ''start'') (ustr ''Are they conscious and responsive?''))"
    by blast
  from t [of PNone PNone] k(1)
  have 2: "\<exists>t. transition_target (ustr ''q3_a'') (ustr ''yes'') = Some t
        \<and> ((\<exists>text. map_of diagnoses t = Some text
               \<and> advance (PStr (ustr ''q3_a'')) (PStr (ustr ''yes'')) = Inr (diagnosis_reply text))
           \<or> (\<exists>node q. map_of questions t = Some node
               \<and> map_of node (ustr ''question'') = Some q
               \<and> advance (PStr (ustr ''q3_a'')) (PStr (ustr ''yes'')) = Inr (question_reply t q)))"
    by blast
  from t [of "PStr (ustr ''yes'')" "PStr (ustr ''q9_z'')"] a(1) u(1)
  have 3: "advance (PStr (ustr ''q9_z'')) (PStr (ustr ''yes'')) = Inl (KeyError (PStr (ustr ''q9_z'')))"
    by simp
  from t [of "PStr (ustr ''yes'')" "PList []"] a(1) u(2)
  have 4: "advance (PList []) (PStr (ustr ''yes'')) = Inl TypeError"
    by simp
  from t [of "PStr (ustr ''maybe'')" PNone] a(2) k(2)
  have 5: "\<exists>key. advance (PStr (ustr ''start'')) (PStr (ustr ''maybe'')) = Inl (KeyError key)"
    by fastforce
  from t [of PNone PNone] k(2)
  have 6: "\<exists>key. advance (PStr (ustr ''start'')) PNone = Inl (KeyError key)"
    by fastforce
  from t [of "PList [PStr (ustr ''yes'')]" PNone] k(2)
  have 7: "advance (PStr (ustr ''start'')) (PList [PStr (ustr ''yes'')]) = Inl TypeError"
    by fastforce
  from 1 2 3 4 5 6 7 show ?thesis
    by blast
qed

text \<open>
  C3 as stated fails: the answer \<open>"initial"\<close> is outside yes/no and succeeds; an answer
  that is rejected and a node that is unknown raise the same \<open>KeyError\<close>.
\<close>

theorem sentinel_answer_counterexample:
  "PStr (ustr ''initial'') \<notin> {PStr (ustr ''yes''), PStr (ustr ''no'')}
   \<and> advance (PStr (ustr ''start'')) (PStr (ustr ''initial'')) =
       Inr (question_reply (ustr ''start'') (ustr ''Are they conscious and responsive?''))
   \<and> advance (PStr (ustr ''start'')) (PStr (ustr ''maybe'')) =
       Inl (KeyError (PStr (ustr ''maybe'')))
   \<and> advance (PStr (ustr ''q9_z'')) (PStr (ustr ''yes'')) =
       Inl (KeyError (PStr (ustr ''q9_z'')))"
  by (simp add: tree_defs)

text \<open>
  C4, as the code has it. The reset is triggered by the sentinel in the answer field:
  whenever the answer is \<open>"initial"\<close>, whatever is supplied as the current node (a real
  id, the sentinel, anything else), the operation goes to the root and returns its
  question without looking the current node up. In particular
  \<open>Advance("initial", "initial")\<close> returns status \<open>"question"\<close> with the text
  \<open>"Are they conscious and responsive?"\<close>; this case is never an error.
\<close>

theorem initial_answer_short_circuits:
  "advance current_q_id (PStr (ustr ''initial'')) =
     Inr (question_reply (ustr ''start'') (ustr ''Are they conscious and responsive?''))
   \<and> answer (PDict [(ustr ''current_q_id'', PStr (ustr ''initial'')),
                     (ustr ''answer'', PStr (ustr ''initial''))]) =
     Inr (PDict [(ustr ''status'', PStr (ustr ''question'')),
                 (ustr ''next_q_id'', PStr (ustr ''start'')),
                 (ustr ''question'', PStr (ustr ''Are they conscious and responsive?''))])"
  by (simp add: advance_initial answer_def dict_get_def question_reply_def)

text \<open>
  C4 as stated fails: with the sentinel as the current node and the answer \<open>"yes"\<close> the
  lookup \<open>questions['initial']\<close> is made and raises \<open>KeyError\<close>.
\<close>

theorem initial_node_with_answer_counterexample:
  "advance (PStr (ustr ''initial'')) (PStr (ustr ''yes'')) =
     Inl (KeyError (PStr (ustr ''initial'')))"
  by (simp add: tree_defs)

text \<open>
  C6. \<open>Advance("start", "no")\<close> returns the question of node \<open>'q1_b'\<close>, and
  \<open>Advance("q1_b", "yes")\<close> then returns status \<open>"diagnosis"\<close> with the text stored under
  \<open>'diag_unconscious_breathing'\<close>. The dialogues start, no, yes and start, yes, yes, yes
  both end with a diagnosis, at the leaves \<open>'diag_unconscious_breathing'\<close> and
  \<open>'diag_bleeding'\<close>, after 2 and 3 calls, which is within 6.
\<close>

theorem end_to_end_traversal:
  "advance (PStr (ustr ''start'')) (PStr (ustr ''no'')) =
     Inr (question_reply (ustr ''q1_b'') (ustr ''Do they have a pulse?''))
   \<and> map_of questions (ustr ''q1_b'') =
       Some [(ustr ''question'', ustr ''Do they have a pulse?''),
             (ustr ''yes'', ustr ''diag_unconscious_breathing''),
             (ustr ''no'', ustr ''diag_unconscious_no_pulse'')]
   \<and> (\<exists>text. map_of diagnoses (ustr ''diag_unconscious_breathing'') = Some text
        \<and> advance (PStr (ustr ''q1_b'')) (PStr (ustr ''yes'')) = Inr (diagnosis_reply text)
        \<and> advance_all (PStr (ustr ''start'')) [PStr (ustr ''no''), PStr (ustr ''yes'')] =
            [Inr (question_reply (ustr ''q1_b'') (ustr ''Do they have a pulse?'')),
             Inr (diagnosis_reply text)])
   \<and> (\<exists>text. map_of diagnoses (ustr ''diag_bleeding'') = Some text
        \<and> advance_all (PStr (ustr ''start''))
              [PStr (ustr ''yes''), PStr (ustr ''yes''), PStr (ustr ''yes'')] =
            [Inr (question_reply (ustr ''q1_a'') (ustr ''Are they breathing?'')),
             Inr (question_reply (ustr ''q2_a'') (ustr ''Is there any severe bleeding?'')),
             Inr (diagnosis_reply text)])
   \<and> walk (ustr ''start'') [ustr ''no'', ustr ''yes''] = Some (ustr ''diag_unconscious_breathing'')
   \<and> walk (ustr ''start'') [ustr ''yes'', ustr ''yes'', ustr ''yes''] = Some (ustr ''diag_bleeding'')
   \<and> ustr ''diag_unconscious_breathing'' \<in> set diagnosis_ids
   \<and> ustr ''diag_bleeding'' \<in> set diagnosis_ids
   \<and> length [ustr ''no'', ustr ''yes''] \<le> 6
   \<and> length [ustr ''yes'', ustr ''yes'', ustr ''yes''] \<le> 6"
  by (simp add: tree_defs question_reply_def diagnosis_reply_def transition_target_def
      diagnosis_ids_eq)

text \<open>
  C10. The short-circuit of the answer endpoint depends on the \<open>answer\<close> field alone:
  for every request body whose \<open>answer\<close> is \<open>"initial"\<close> (with \<open>current_q_id\<close> missing,
  unknown, a diagnosis id, anything) the reply is status \<open>"question"\<close>, \<open>next_q_id\<close>
  \<open>'start'\<close> and the root question. A \<open>current_q_id\<close> of \<open>"initial"\<close> with any other
  answer does not trigger it: the node lookup is made and raises \<open>KeyError\<close>.
\<close>

theorem short_circuit_keyed_on_answer:
  "(\<forall>d. dict_get d (ustr ''answer'') = PStr (ustr ''initial'') \<longrightarrow>
        answer (PDict d) =
          Inr (question_reply (ustr ''start'') (ustr ''Are they conscious and responsive?'')))
   \<and> (\<forall>d. dict_get d (ustr ''current_q_id'') = PStr (ustr ''initial'') \<and>
          dict_get d (ustr ''answer'') \<noteq> PStr (ustr ''initial'') \<longrightarrow>
        answer (PDict d) = Inl (KeyError (PStr (ustr ''initial''))))"
proof (intro conjI allI impI)
  fix d
  assume "dict_get d (ustr ''answer'') = PStr (ustr ''initial'')"
  then show "answer (PDict d) =
      Inr (question_reply (ustr ''start'') (ustr ''Are they conscious and responsive?''))"
    by (simp add: answer_def advance_initial)
next
  fix d
  assume a: "dict_get d (ustr ''current_q_id'') = PStr (ustr ''initial'') \<and>
          dict_get d (ustr ''answer'') \<noteq> PStr (ustr ''initial'')"
  have "\<forall>k \<in> set question_ids. PStr (ustr ''initial'') \<noteq> PStr k"
    by (simp add: question_ids_eq)
  with a show "answer (PDict d) = Inl (KeyError (PStr (ustr ''initial'')))"
    by (simp add: answer_def advance_unknown_node)
qed

theorem short_circuit_keyed_on_answer_witness:
  "answer (PDict [(ustr ''answer'', PStr (ustr ''initial''))]) =
     Inr (question_reply (ustr ''start'') (ustr ''Are they conscious and responsive?''))
   \<and> answer (PDict [(ustr ''current_q_id'', PStr (ustr ''diag_stroke'')),
                     (ustr ''answer'', PStr (ustr ''initial''))]) =
     Inr (question_reply (ustr ''start'') (ustr ''Are they conscious and responsive?''))
   \<and> answer (PDict [(ustr ''current_q_id'', PStr (ustr ''initial'')),
                     (ustr ''answer'', PStr (ustr ''yes''))]) =
     Inl (KeyError (PStr (ustr ''initial'')))"
proof -
  have 1: "dict_get [(ustr ''answer'', PStr (ustr ''initial''))] (ustr ''answer'') =
      PStr (ustr ''initial'')"
    by (simp add: dict_get_def)
  have 2: "dict_get [(ustr ''current_q_id'', PStr (ustr ''diag_stroke'')),
        (ustr ''answer'', PStr (ustr ''initial''))] (ustr ''answer'') = PStr (ustr ''initial'')"
    by (simp add: dict_get_def)
  have 3: "dict_get [(ustr ''current_q_id'', PStr (ustr ''initial'')),
        (ustr ''answer'', PStr (ustr ''yes''))] (ustr ''current_q_id'') = PStr (ustr ''initial'')
      \<and> dict_get [(ustr ''current_q_id'', PStr (ustr ''initial'')),
        (ustr ''answer'', PStr (ustr ''yes''))] (ustr ''answer'') \<noteq> PStr (ustr ''initial'')"
    by (simp add: dict_get_def)
  from short_circuit_keyed_on_answer 1 2 3 show ?thesis
    by blast
qed

section \<open>Properties of the symptom classifier\<close>

lemma bind_err_Inr_iff: "bind_err r f = Inr y \<longleftrightarrow> (\<exists>v. r = Inr v \<and> f v = Inr y)"
  by (cases r) (simp_all add: bind_err_def)

lemma getitem_key_Inr_iff: "getitem v (PStr k) = Inr x \<longleftrightarrow> field k v = Some x"
  by (cases v) (simp_all add: dict_getitem_def split: option.split)

lemma getitem_0_Inr_iff:
  "getitem v (PInt 0) = Inr x \<longleftrightarrow>
     first_item v = Some x \<or> (\<exists>c cs. v = PStr (c # cs) \<and> x = PStr [c])"
proof (cases v)
  case (PList xs)
  then show ?thesis by (cases xs) (simp_all add: seq_index_def)
next
  case (PStr s)
  then show ?thesis by (cases s) (auto simp: seq_index_def bind_err_def)
qed (simp_all add: dict_getitem_def)

lemma strip_method_Inr_iff: "strip_method v = Inr m \<longleftrightarrow> (\<exists>s. str_value v = Some s \<and> m = strip s)"
  by (cases v) auto

lemma getitem_0_key_Inr_iff:
  "bind_err (getitem v (PInt 0)) (\<lambda>x. bind_err (getitem x (PStr k)) f) = Inr m \<longleftrightarrow>
     (\<exists>x y. first_item v = Some x \<and> field k x = Some y \<and> f y = Inr m)"
  by (auto simp: bind_err_Inr_iff getitem_key_Inr_iff getitem_0_Inr_iff)

lemma read_text_Inr_iff:
  "bind_err (getitem result (PStr (ustr ''candidates''))) (\<lambda>candidates.
   bind_err (getitem candidates (PInt 0)) (\<lambda>candidate.
   bind_err (getitem candidate (PStr (ustr ''content''))) (\<lambda>content.
   bind_err (getitem content (PStr (ustr ''parts''))) (\<lambda>parts.
   bind_err (getitem parts (PInt 0)) (\<lambda>part.
   bind_err (getitem part (PStr (ustr ''text''))) strip_method))))) = Inr m \<longleftrightarrow>
   (\<exists>t. body_text result = Some t \<and> m = strip t)"
  unfolding body_text_def bind_eq_Some_conv
  apply (subst bind_err_Inr_iff)
  apply (subst getitem_0_key_Inr_iff)
  apply (subst bind_err_Inr_iff)
  apply (subst getitem_0_key_Inr_iff)
  apply (simp only: getitem_key_Inr_iff strip_method_Inr_iff)
  apply blast
  done

lemma fetch_ai_match_Inr_iff:
  "fetch_ai_match (PostReturns st (Some b)) = Inr m \<longleftrightarrow>
     \<not> (400 \<le> st \<and> st < 600) \<and> (\<exists>t. body_text b = Some t \<and> m = strip t)"
  by (simp add: fetch_ai_match_def read_text_Inr_iff)

lemma call_ai_fallback:
  "\<forall>m. fetch_ai_match outcome \<noteq> Inr m \<Longrightarrow>
     call_ai_for_symptom_check symptoms outcome = Inr (ustr ''start'')"
  by (cases "fetch_ai_match outcome") (simp_all add: call_ai_for_symptom_check_def bind_err_def)

lemma call_ai_match:
  "fetch_ai_match outcome = Inr m \<Longrightarrow>
     call_ai_for_symptom_check symptoms outcome = Inr (entry_for m)"
  by (simp add: call_ai_for_symptom_check_def bind_err_def)

lemma entry_for_eq:
  "entry_for m = (case map_of entry_mapping m of Some q \<Rightarrow> q | None \<Rightarrow> ustr ''start'')"
  by (simp add: entry_for_def entry_mapping_def diagnosis_categories_def)

lemma entry_for_range:
  "entry_for m \<in> {ustr ''start'', ustr ''q1_a'', ustr ''q1_b'', ustr ''q2_a'', ustr ''q3_a'',
     ustr ''q4_a'', ustr ''q5_a'', ustr ''q6_a''}"
  by (simp add: entry_for_def)

lemma call_ai_range:
  "\<exists>i. call_ai_for_symptom_check symptoms outcome = Inr i \<and>
     i \<in> {ustr ''start'', ustr ''q1_a'', ustr ''q1_b'', ustr ''q2_a'', ustr ''q3_a'',
     ustr ''q4_a'', ustr ''q5_a'', ustr ''q6_a''}"
proof (cases "fetch_ai_match outcome")
  case (Inl e)
  then show ?thesis by (simp add: call_ai_for_symptom_check_def bind_err_def)
next
  case (Inr m)
  then show ?thesis using entry_for_range [of m] by (simp only: call_ai_match) blast
qed


lemma call_ai_on_text:
  assumes "\<not> (400 \<le> st \<and> st < 600)" and "body_text b = Some r"
  shows "call_ai_for_symptom_check symptoms (PostReturns st (Some b)) = Inr (entry_for (strip r))"
proof -
  from assms have "fetch_ai_match (PostReturns st (Some b)) = Inr (strip r)"
    by (simp add: fetch_ai_match_Inr_iff)
  then show ?thesis by (rule call_ai_match)
qed

lemma body_text_text_body: "body_text (text_body t) = Some t"
  by (simp add: body_text_def text_body_def)

text \<open>
  C1, as the code has it. For every symptoms value, when the external call fails in one
  of these ways: \<open>requests.post\<close> raises; the response has a status from 400 to 599
  (the ones \<open>raise_for_status\<close> rejects); the body does not parse; or the body has no
  string at \<open>['candidates'][0]['content']['parts'][0]['text']\<close> (a field is missing
  or of another type), \<open>call_ai_for_symptom_check\<close> returns \<open>'start'\<close>. No error
  reaches the caller: for every outcome of the call the function returns an id.
\<close>

theorem call_ai_falls_back_on_failure:
  "(\<forall>e. call_ai_for_symptom_check symptoms (PostRaises e) = Inr (ustr ''start''))
   \<and> (\<forall>st body. 400 \<le> st \<and> st < 600 \<longrightarrow>
         call_ai_for_symptom_check symptoms (PostReturns st body) = Inr (ustr ''start''))
   \<and> (\<forall>st. call_ai_for_symptom_check symptoms (PostReturns st None) = Inr (ustr ''start''))
   \<and> (\<forall>st b. body_text b = None \<longrightarrow>
         call_ai_for_symptom_check symptoms (PostReturns st (Some b)) = Inr (ustr ''start''))
   \<and> (\<forall>outcome. \<exists>next_id. call_ai_for_symptom_check symptoms outcome = Inr next_id)"
proof (intro conjI allI impI)
  fix e
  show "call_ai_for_symptom_check symptoms (PostRaises e) = Inr (ustr ''start'')"
    by (simp add: call_ai_for_symptom_check_def fetch_ai_match_def bind_err_def)
next
  fix st :: nat and body
  assume "400 \<le> st \<and> st < 600"
  then show "call_ai_for_symptom_check symptoms (PostReturns st body) = Inr (ustr ''start'')"
    by (simp add: call_ai_for_symptom_check_def fetch_ai_match_def bind_err_def)
next
  fix st
  show "call_ai_for_symptom_check symptoms (PostReturns st None) = Inr (ustr ''start'')"
    by (simp add: call_ai_for_symptom_check_def fetch_ai_match_def bind_err_def)
next
  fix st b
  assume "body_text b = None"
  then have "\<forall>m. fetch_ai_match (PostReturns st (Some b)) \<noteq> Inr m"
    by (simp add: fetch_ai_match_Inr_iff)
  then show "call_ai_for_symptom_check symptoms (PostReturns st (Some b)) = Inr (ustr ''start'')"
    by (rule call_ai_fallback)
next
  fix outcome
  from call_ai_range [of symptoms outcome]
  show "\<exists>next_id. call_ai_for_symptom_check symptoms outcome = Inr next_id"
    by blast
qed

theorem call_ai_falls_back_on_failure_witness:
  "call_ai_for_symptom_check (PStr (ustr ''chest pain'')) (PostRaises Timeout) = Inr (ustr ''start'')
   \<and> call_ai_for_symptom_check (PStr (ustr ''chest pain''))
        (PostReturns 503 (Some (text_body (ustr ''Heart Attack'')))) = Inr (ustr ''start'')
   \<and> call_ai_for_symptom_check (PStr (ustr ''chest pain'')) (PostReturns 200 None) =
        Inr (ustr ''start'')
   \<and> body_text (PDict [(ustr ''candidates'', PList [])]) = None
   \<and> call_ai_for_symptom_check (PStr (ustr ''chest pain''))
        (PostReturns 200 (Some (PDict [(ustr ''candidates'', PList [])]))) = Inr (ustr ''start'')"
proof -
  have 1: "(400::nat) \<le> 503 \<and> (503::nat) < 600" by simp
  have 2: "body_text (PDict [(ustr ''candidates'', PList [])]) = None"
    by (simp add: body_text_def)
  from call_ai_falls_back_on_failure [of "PStr (ustr ''chest pain'')"] 1 2 show ?thesis
    by blast
qed

text \<open>
  C1 as stated fails for a status that is neither a success nor in 400 to 599: status 300
  is not rejected, so a body that carries a known label is read and mapped.
\<close>

theorem other_status_counterexample:
  "call_ai_for_symptom_check (PStr (ustr ''chest pain''))
     (PostReturns 300 (Some (text_body (ustr ''Heart Attack'')))) = Inr (ustr ''q3_a'')
   \<and> ustr ''q3_a'' \<noteq> ustr ''start''"
  by (simp add: call_ai_on_text body_text_text_body entry_for_def diagnosis_categories_def
      strip_def py_isspace_def ustr_def)

text \<open>
  C2. For every response text \<open>r\<close> of a call that did not fail: when \<open>r\<close>, with
  the whitespace at both ends removed, is one of the known labels,
  \<open>call_ai_for_symptom_check\<close> returns the question id that the entry mapping gives
  that label (\<open>"Heart Attack"\<close> gives \<open>'q3_a'\<close>); otherwise (\<open>"No Match"\<close>, the empty
  string, any other text) it returns \<open>'start'\<close>.
\<close>

theorem call_ai_maps_known_labels:
  "\<not> (400 \<le> st \<and> st < 600) \<Longrightarrow> body_text b = Some r \<Longrightarrow>
     call_ai_for_symptom_check symptoms (PostReturns st (Some b)) =
       Inr (case map_of entry_mapping (strip r) of Some q \<Rightarrow> q | None \<Rightarrow> ustr ''start'')
     \<and> map fst entry_mapping = map fst diagnosis_categories
     \<and> set (map snd entry_mapping) \<subseteq> set question_ids
     \<and> (strip r \<notin> set (map fst diagnosis_categories) \<longrightarrow>
          call_ai_for_symptom_check symptoms (PostReturns st (Some b)) = Inr (ustr ''start''))"
proof (intro conjI impI)
  assume ok: "\<not> (400 \<le> st \<and> st < 600)" and b: "body_text b = Some r"
  then show "call_ai_for_symptom_check symptoms (PostReturns st (Some b)) =
       Inr (case map_of entry_mapping (strip r) of Some q \<Rightarrow> q | None \<Rightarrow> ustr ''start'')"
    by (simp add: call_ai_on_text entry_for_eq)
  show "map fst entry_mapping = map fst diagnosis_categories"
    by (simp add: entry_mapping_def diagnosis_categories_def)
  show "set (map snd entry_mapping) \<subseteq> set question_ids"
    by (simp add: entry_mapping_def question_ids_eq)
  assume "strip r \<notin> set (map fst diagnosis_categories)"
  with ok b show "call_ai_for_symptom_check symptoms (PostReturns st (Some b)) = Inr (ustr ''start'')"
    by (simp add: call_ai_on_text entry_for_def)
qed

theorem call_ai_maps_known_labels_witness:
  "call_ai_for_symptom_check (PStr (ustr ''severe chest pain, clutching chest''))
     (PostReturns 200 (Some (text_body (ustr ''Heart Attack'')))) = Inr (ustr ''q3_a'')
   \<and> call_ai_for_symptom_check (PStr (ustr ''severe chest pain, clutching chest''))
     (PostReturns 200 (Some (text_body (ustr '' Heart Attack  '')))) = Inr (ustr ''q3_a'')
   \<and> call_ai_for_symptom_check (PStr (ustr ''slurred speech''))
     (PostReturns 200 (Some (text_body (12288 # ustr ''Stroke'' @ [10])))) = Inr (ustr ''q4_a'')
   \<and> call_ai_for_symptom_check (PStr (ustr ''a headache''))
     (PostReturns 200 (Some (text_body (ustr ''No Match'')))) = Inr (ustr ''start'')
   \<and> call_ai_for_symptom_check (PStr (ustr ''a headache''))
     (PostReturns 200 (Some (text_body []))) = Inr (ustr ''start'')
   \<and> call_ai_for_symptom_check (PStr (ustr ''a headache''))
     (PostReturns 200 (Some (text_body (ustr ''heart attack'')))) = Inr (ustr ''start'')"
proof -
  have ok: "\<not> (400 \<le> (200::nat) \<and> (200::nat) < 600)" by simp
  have s: "strip (ustr ''Heart Attack'') = ustr ''Heart Attack''"
    "strip (ustr '' Heart Attack  '') = ustr ''Heart Attack''"
    "strip (12288 # ustr ''Stroke'' @ [10]) = ustr ''Stroke''"
    "strip (ustr ''No Match'') = ustr ''No Match''"
    "strip [] = []"
    "strip (ustr ''heart attack'') = ustr ''heart attack''"
    by (simp_all add: strip_def py_isspace_def ustr_def)
  have m: "map_of entry_mapping (ustr ''Heart Attack'') = Some (ustr ''q3_a'')"
    "map_of entry_mapping (ustr ''Stroke'') = Some (ustr ''q4_a'')"
    "map_of entry_mapping (ustr ''No Match'') = None"
    "map_of entry_mapping [] = None"
    "map_of entry_mapping (ustr ''heart attack'') = None"
    by (simp_all add: entry_mapping_def)
  note t = call_ai_maps_known_labels [OF ok body_text_text_body, THEN conjunct1]
  show ?thesis
    by (simp add: t s m)
qed

text \<open>
  C9. Whatever the external call does, \<open>call_ai_for_symptom_check\<close> returns one of
  \<open>'start'\<close>, \<open>'q1_a'\<close>, \<open>'q1_b'\<close>, \<open>'q2_a'\<close>, \<open>'q3_a'\<close>, \<open>'q4_a'\<close>, \<open>'q5_a'\<close>, \<open>'q6_a'\<close>,
  each a key of \<open>questions\<close>, and never a diagnosis id from the values of
  \<open>diagnosis_categories\<close>. So in \<open>symptom_check\<close> the lookup
  \<open>questions.get(next_question_id, questions['start'])\<close> finds the node and never takes
  the default, and the reply carries that id with the question of that same node.
\<close>

theorem classifier_returns_question_id:
  "(\<exists>i. call_ai_for_symptom_check symptoms outcome = Inr i
        \<and> i \<in> {ustr ''start'', ustr ''q1_a'', ustr ''q1_b'', ustr ''q2_a'', ustr ''q3_a'',
                ustr ''q4_a'', ustr ''q5_a'', ustr ''q6_a''}
        \<and> i \<in> set question_ids
        \<and> i \<notin> set (map snd diagnosis_categories)
        \<and> i \<notin> set diagnosis_ids)
   \<and> (truthy (dict_get d (ustr ''symptoms'')) \<longrightarrow>
        (\<exists>i node q.
           call_ai_for_symptom_check (dict_get d (ustr ''symptoms'')) outcome = Inr i
           \<and> map_of questions i = Some node
           \<and> map_of node (ustr ''question'') = Some q
           \<and> symptom_check (PDict d) outcome = Inr (question_reply i q)))"
proof (intro conjI impI)
  from call_ai_range [of symptoms outcome]
  obtain i where i: "call_ai_for_symptom_check symptoms outcome = Inr i"
    and r: "i \<in> {ustr ''start'', ustr ''q1_a'', ustr ''q1_b'', ustr ''q2_a'', ustr ''q3_a'',
                ustr ''q4_a'', ustr ''q5_a'', ustr ''q6_a''}"
    by blast
  from r have "i \<in> set question_ids"
    by (simp add: question_ids_eq)
  moreover from r have "i \<notin> set (map snd diagnosis_categories)"
    by (auto simp: diagnosis_categories_def)
  moreover from r have "i \<notin> set diagnosis_ids"
    by (auto simp: diagnosis_ids_eq)
  ultimately show "\<exists>i. call_ai_for_symptom_check symptoms outcome = Inr i
        \<and> i \<in> {ustr ''start'', ustr ''q1_a'', ustr ''q1_b'', ustr ''q2_a'', ustr ''q3_a'',
                ustr ''q4_a'', ustr ''q5_a'', ustr ''q6_a''}
        \<and> i \<in> set question_ids
        \<and> i \<notin> set (map snd diagnosis_categories)
        \<and> i \<notin> set diagnosis_ids"
    using i r by blast
next
  assume t: "truthy (dict_get d (ustr ''symptoms''))"
  from call_ai_range [of "dict_get d (ustr ''symptoms'')" outcome]
  obtain i where i: "call_ai_for_symptom_check (dict_get d (ustr ''symptoms'')) outcome = Inr i"
    and r: "i \<in> {ustr ''start'', ustr ''q1_a'', ustr ''q1_b'', ustr ''q2_a'', ustr ''q3_a'',
                ustr ''q4_a'', ustr ''q5_a'', ustr ''q6_a''}"
    by blast
  from r have "\<exists>node q. map_of questions i = Some node \<and> map_of node (ustr ''question'') = Some q"
    by (auto simp: questions_def)
  then obtain node q where n: "map_of questions i = Some node"
    and q: "map_of node (ustr ''question'') = Some q"
    by blast
  from t i n q have "symptom_check (PDict d) outcome = Inr (question_reply i q)"
    by (simp add: symptom_check_def bind_err_def dict_getitem_def)
  with i n q show "\<exists>i node q.
           call_ai_for_symptom_check (dict_get d (ustr ''symptoms'')) outcome = Inr i
           \<and> map_of questions i = Some node
           \<and> map_of node (ustr ''question'') = Some q
           \<and> symptom_check (PDict d) outcome = Inr (question_reply i q)"
    by blast
qed

theorem classifier_returns_question_id_witness:
  "truthy (dict_get [(ustr ''symptoms'', PStr (ustr ''slurred speech''))] (ustr ''symptoms''))
   \<and> (\<exists>i node q.
         call_ai_for_symptom_check (PStr (ustr ''slurred speech''))
           (PostReturns 200 (Some (text_body (ustr ''Stroke'')))) = Inr i
         \<and> map_of questions i = Some node
         \<and> map_of node (ustr ''question'') = Some q
         \<and> symptom_check (PDict [(ustr ''symptoms'', PStr (ustr ''slurred speech''))])
             (PostReturns 200 (Some (text_body (ustr ''Stroke'')))) = Inr (question_reply i q))"
proof -
  have g: "dict_get [(ustr ''symptoms'', PStr (ustr ''slurred speech''))] (ustr ''symptoms'') =
      PStr (ustr ''slurred speech'')"
    by (simp add: dict_get_def)
  then have t: "truthy (dict_get [(ustr ''symptoms'', PStr (ustr ''slurred speech''))]
      (ustr ''symptoms''))"
    by simp
  from classifier_returns_question_id
    [of _ "PostReturns 200 (Some (text_body (ustr ''Stroke'')))"
      "[(ustr ''symptoms'', PStr (ustr ''slurred speech''))]"] t
  show ?thesis
    unfolding g by blast
qed

end
